theory Spec2Isabelle
  imports Main "HOL-Library.Word"
begin

section \<open>Error values and stat records\<close>

text \<open>
  The payload a store primitive reports on failure. The source types it \<open>string\<close> (in
  \<open>stat\<close> and \<open>readdir\<close>) or leaves it untyped (\<open>_remove\<close>, \<open>sync\<close>); it is tested
  only with \<open>if (err)\<close>, so what matters is whether it is present and non-empty.
\<close>

type_synonym native = string

fun truthy :: "native option \<Rightarrow> bool" where
  "truthy None = False"
| "truthy (Some s) = (s \<noteq> [])"

text \<open>\<open>if (err) { yes(err) } else { no }\<close>: null, undefined and the empty string are falsy.\<close>

definition if_err :: "native option \<Rightarrow> (native \<Rightarrow> 'a) \<Rightarrow> 'a \<Rightarrow> 'a" where
  "if_err err yes no = (case err of None \<Rightarrow> no | Some e \<Rightarrow> if e \<noteq> [] then yes e else no)"

text \<open>
  Modelled from the spec: \<open>core/api_error\<close> is not among the sources. An error value is
  one of the kinds not-found, not-a-directory, not-empty or generic, and carries the
  offending path or message. \<open>ApiError.ENOENT(p)\<close>, \<open>ApiError.ENOTDIR(p)\<close> and
  \<open>ApiError.ENOTEMPTY(p)\<close> are the static factories the backend calls.
\<close>

datatype ErrorCode = ENOENT | ENOTDIR | ENOTEMPTY | EIO

datatype ApiError = ApiError (errno: ErrorCode) (err_path: string)

definition ApiError_ENOENT :: "string \<Rightarrow> ApiError" where
  "ApiError_ENOENT p = ApiError ENOENT p"

definition ApiError_ENOTDIR :: "string \<Rightarrow> ApiError" where
  "ApiError_ENOTDIR p = ApiError ENOTDIR p"

definition ApiError_ENOTEMPTY :: "string \<Rightarrow> ApiError" where
  "ApiError_ENOTEMPTY p = ApiError ENOTEMPTY p"

text \<open>
  What can arrive in the error slot of a completion callback of the backend: an
  \<open>ApiError\<close> built by the backend, or a store-native payload handed on as it came.
\<close>

datatype err_value = Api ApiError | Native native

text \<open>
  Modelled from the spec: \<open>core/node_fs_stats\<close> is not among the sources. A stat record
  is either a file with its byte size or a directory with its block count.
\<close>

datatype FileType = FILE | DIRECTORY | SYMLINK

datatype Stats = Stats (itemType: FileType) (stat_size: int)

text \<open>The \<open>StatInfo\<close> answer of the store: \<open>res.type\<close>, \<open>res.size\<close>, \<open>res.blocks\<close>.\<close>

record StatInfo =
  info_type :: string
  info_size :: int
  info_blocks :: int

section \<open>The store behind the backend (generic/orbitfs)\<close>

text \<open>
  The store is an external collaborator; the backend reaches it through \<open>this._fs\<close>.
  It is a parameter here: a record of its primitives over a store state \<open>'st\<close>.
  \<open>wrapSync(f)(args, k)\<close> calls the primitive \<open>f\<close> and hands its single completion
  \<open>(err, res)\<close> to \<open>k\<close>; \<open>ls\<close> and \<open>stat\<close> are queries, the others return the store
  state they leave behind. \<open>rm\<close> returns a promise, which resolves with a value or
  rejects.
\<close>

record rm_opts =
  recursive :: bool

datatype rm_completion = Resolved "native option" | Rejected native

type_synonym 'a completion = "native option \<times> 'a option"

record 'st orbitfs =
  fs_ls :: "string \<Rightarrow> 'st \<Rightarrow> string list completion"
  fs_stat :: "string \<Rightarrow> 'st \<Rightarrow> StatInfo completion"
  fs_mkdir :: "string \<Rightarrow> 'st \<Rightarrow> unit completion \<times> 'st"
  fs_mv :: "string \<Rightarrow> string \<Rightarrow> 'st \<Rightarrow> unit completion \<times> 'st"
  fs_rm :: "string list \<Rightarrow> rm_opts \<Rightarrow> 'st \<Rightarrow> rm_completion \<times> 'st"
  fs_empty :: "'st \<Rightarrow> unit completion \<times> 'st"

text \<open>The store primitives the backend has invoked, in order.\<close>

datatype call =
    Ls string
  | Stat string
  | Mkdir string
  | Mv string string
  | Rm "string list" rm_opts
  | Empty

text \<open>
  The world an operation runs in: the store state, the primitives invoked so far, the
  payloads delivered to the caller's completion callback so far (of type \<open>'r\<close>), and
  whether an exception escaped.
\<close>

record ('st, 'r) world =
  store :: 'st
  calls :: "call list"
  cbs :: "'r list"
  raised :: bool

definition boot :: "'st \<Rightarrow> ('st, 'r) world" where
  "boot s = \<lparr>store = s, calls = [], cbs = [], raised = False\<rparr>"

text \<open>
  Callbacks are continuations on the world. \<open>BFSOneArgCallback\<close> takes an optional
  error, \<open>BFSCallback<T>\<close> an optional error and an optional result.
\<close>

type_synonym ('st, 'r) BFSOneArgCallback =
  "err_value option \<Rightarrow> ('st, 'r) world \<Rightarrow> ('st, 'r) world"

type_synonym ('st, 'r, 'a) BFSCallback =
  "err_value option \<Rightarrow> 'a option \<Rightarrow> ('st, 'r) world \<Rightarrow> ('st, 'r) world"

text \<open>The caller's callbacks used to observe an operation: they record what they get.\<close>

definition deliver :: "('st, err_value option) BFSOneArgCallback" where
  "deliver e w = w\<lparr>cbs := cbs w @ [e]\<rparr>"

definition deliver2 :: "('st, err_value option \<times> 'a option, 'a) BFSCallback" where
  "deliver2 e res w = w\<lparr>cbs := cbs w @ [(e, res)]\<rparr>"

section \<open>OrbitFS: the filesystem operations\<close>

definition empty_fs ::
  "'st orbitfs \<Rightarrow> ('st, 'r) BFSOneArgCallback \<Rightarrow> ('st, 'r) world \<Rightarrow> ('st, 'r) world" where
  "empty_fs fs mainCb w =
     (case fs_empty fs (store w) of
        ((err, res), st') \<Rightarrow>
          mainCb (map_option Native err) (w\<lparr>store := st', calls := calls w @ [Empty]\<rparr>))"

definition rename ::
  "'st orbitfs \<Rightarrow> string \<Rightarrow> string \<Rightarrow> ('st, 'r) BFSOneArgCallback \<Rightarrow>
   ('st, 'r) world \<Rightarrow> ('st, 'r) world" where
  "rename fs oldPath newPath cb w =
     (case fs_mv fs oldPath newPath (store w) of
        ((err, res), st') \<Rightarrow>
          cb (map_option Native err)
             (w\<lparr>store := st', calls := calls w @ [Mv oldPath newPath]\<rparr>))"

definition stat ::
  "'st orbitfs \<Rightarrow> string \<Rightarrow> bool \<Rightarrow> ('st, 'r, Stats) BFSCallback \<Rightarrow>
   ('st, 'r) world \<Rightarrow> ('st, 'r) world" where
  "stat fs path isLstat cb w =
     (let w1 = w\<lparr>calls := calls w @ [Stat path]\<rparr> in
      case fs_stat fs path (store w) of
        (err, res) \<Rightarrow>
          if_err err
            (\<lambda>e. cb (Some (Api (ApiError_ENOENT e))) None w1)
            (case res of
               None \<Rightarrow> w1\<lparr>raised := True\<rparr>
             | Some r \<Rightarrow>
                 if info_type r = ''file''
                 then cb None (Some (Stats FILE (info_size r))) w1
                 else if info_type r = ''directory''
                 then cb None (Some (Stats DIRECTORY (info_blocks r))) w1
                 else cb (Some (Api (ApiError_ENOENT path))) None w1))"

definition priv_remove ::
  "'st orbitfs \<Rightarrow> string \<Rightarrow> ('st, 'r) BFSOneArgCallback \<Rightarrow> bool \<Rightarrow>
   ('st, 'r) world \<Rightarrow> ('st, 'r) world" where
  "priv_remove fs path cb isFile w =
     (let opts = \<lparr>recursive = isFile\<rparr> in
      case fs_rm fs [path] opts (store w) of
        (promise, st') \<Rightarrow>
          (let w1 = w\<lparr>store := st', calls := calls w @ [Rm [path] opts]\<rparr> in
           case promise of
             Resolved err \<Rightarrow> if_err err (\<lambda>e. cb (Some (Native e)) w1) w1
           | Rejected reason \<Rightarrow> w1))"

definition unlink ::
  "'st orbitfs \<Rightarrow> string \<Rightarrow> ('st, 'r) BFSOneArgCallback \<Rightarrow>
   ('st, 'r) world \<Rightarrow> ('st, 'r) world" where
  "unlink fs path cb w = priv_remove fs path cb True w"

definition readdir ::
  "'st orbitfs \<Rightarrow> string \<Rightarrow> ('st, 'r, string list) BFSCallback \<Rightarrow>
   ('st, 'r) world \<Rightarrow> ('st, 'r) world" where
  "readdir fs path cb w =
     (let w1 = w\<lparr>calls := calls w @ [Ls path]\<rparr> in
      case fs_ls fs path (store w) of
        (err, res) \<Rightarrow>
          if_err err
            (\<lambda>e. cb (Some (Api (ApiError_ENOTDIR e))) None w1)
            (cb None res w1))"

definition rmdir ::
  "'st orbitfs \<Rightarrow> string \<Rightarrow> ('st, 'r) BFSOneArgCallback \<Rightarrow>
   ('st, 'r) world \<Rightarrow> ('st, 'r) world" where
  "rmdir fs path cb w =
     readdir fs path
       (\<lambda>e files w'.
          case e of
            Some e' \<Rightarrow> cb (Some e') w'
          | None \<Rightarrow>
              (case files of
                 None \<Rightarrow> w'\<lparr>raised := True\<rparr>
               | Some fl \<Rightarrow>
                   if length fl > 0 then cb (Some (Api (ApiError_ENOTEMPTY path))) w'
                   else priv_remove fs path cb False w'))
       w"

definition mkdir ::
  "'st orbitfs \<Rightarrow> string \<Rightarrow> int \<Rightarrow> ('st, 'r) BFSOneArgCallback \<Rightarrow>
   ('st, 'r) world \<Rightarrow> ('st, 'r) world" where
  "mkdir fs path mode cb w =
     (case fs_mkdir fs path (store w) of
        ((err, res), st') \<Rightarrow>
          cb (map_option Native err) (w\<lparr>store := st', calls := calls w @ [Mkdir path]\<rparr>))"

section \<open>OrbitFSFile: the dirty-buffer file object\<close>

text \<open>
  Modelled from the spec: \<open>generic/preload_file\<close> is not among the sources. The file
  object holds the full in-memory byte content of the file and a dirty flag;
  \<open>isDirty\<close> reads the flag, \<open>resetDirty\<close> clears it, \<open>getBuffer\<close> returns the content.
\<close>

type_synonym byte = "8 word"

record OrbitFSFile =
  dirty :: bool
  buffer :: "byte list"

definition isDirty :: "OrbitFSFile \<Rightarrow> bool" where
  "isDirty f = dirty f"

definition resetDirty :: "OrbitFSFile \<Rightarrow> OrbitFSFile" where
  "resetDirty f = f\<lparr>dirty := False\<rparr>"

definition getBuffer :: "OrbitFSFile \<Rightarrow> byte list" where
  "getBuffer f = buffer f"

text \<open>
  Modelled from the spec: \<open>buffer2ArrayBuffer\<close> (\<open>core/util\<close>) is not among the sources;
  it materialises the buffer's bytes. A \<open>Blob\<close> is built from a list of parts and its
  \<open>size\<close> is their total byte length.
\<close>

definition buffer2ArrayBuffer :: "byte list \<Rightarrow> byte list" where
  "buffer2ArrayBuffer b = b"

datatype Blob = Blob "byte list list"

fun blob_size :: "Blob \<Rightarrow> nat" where
  "blob_size (Blob parts) = sum_list (map length parts)"

text \<open>
  The entry \<open>this._entry\<close> and the writer it creates are external. \<open>createWriter\<close> is
  given a success callback only, so an entry that grants no writer calls nothing back.
  After \<open>write(blob)\<close> the writer fires events, each dispatched to the handler
  installed at that moment: \<open>WriteEnd\<close> to \<open>onwriteend\<close>, \<open>WriteError e\<close> to \<open>onerror\<close>.
\<close>

datatype writer_event = WriteEnd | WriteError native

record FileEntry =
  grants_writer :: bool
  write_events :: "Blob \<Rightarrow> writer_event list"

datatype writer_call = CreateWriter | Write Blob | Truncate nat

record 'r file_world =
  handle :: OrbitFSFile
  wcalls :: "writer_call list"
  fcbs :: "'r list"

definition fboot :: "OrbitFSFile \<Rightarrow> 'r file_world" where
  "fboot f = \<lparr>handle = f, wcalls = [], fcbs = []\<rparr>"

type_synonym 'r FileCallback = "err_value option \<Rightarrow> 'r file_world \<Rightarrow> 'r file_world"

definition fdeliver :: "(err_value option) FileCallback" where
  "fdeliver e w = w\<lparr>fcbs := fcbs w @ [e]\<rparr>"

text \<open>
  The two handlers installed by \<open>sync\<close>. \<open>onwriteend\<close> first detaches both handlers, so
  no later event of this writer is handled; \<open>onerror\<close> leaves them installed.
\<close>

fun dispatch :: "nat \<Rightarrow> 'r FileCallback \<Rightarrow> writer_event list \<Rightarrow> 'r file_world \<Rightarrow> 'r file_world" where
  "dispatch len cb [] w = w"
| "dispatch len cb (WriteEnd # evs) w =
     cb None (w\<lparr>wcalls := wcalls w @ [Truncate len], handle := resetDirty (handle w)\<rparr>)"
| "dispatch len cb (WriteError err # evs) w =
     dispatch len cb evs (cb (Some (Native err)) w)"

definition sync :: "FileEntry \<Rightarrow> 'r FileCallback \<Rightarrow> 'r file_world \<Rightarrow> 'r file_world" where
  "sync entry cb w =
     (if \<not> isDirty (handle w) then cb None w
      else
        (let w1 = w\<lparr>wcalls := wcalls w @ [CreateWriter]\<rparr> in
         if \<not> grants_writer entry then w1
         else
           (let buf = getBuffer (handle w1);
                blob = Blob [buffer2ArrayBuffer buf];
                len = blob_size blob;
                w2 = w1\<lparr>wcalls := wcalls w1 @ [Write blob]\<rparr>
            in dispatch len cb (write_events entry blob) w2)))"

definition close :: "FileEntry \<Rightarrow> 'r FileCallback \<Rightarrow> 'r file_world \<Rightarrow> 'r file_world" where
  "close entry cb w = sync entry cb w"

section \<open>OrbitFS: two-phase construction\<close>

record OrbitFSOptions =
  opt_address :: "string option"
  opt_permissions :: "string list option"

text \<open>
  The backend instance; \<open>'h\<close> is whatever the store module hands over as \<open>_fs\<close>, which
  is unset until phase 2.
\<close>

record 'h OrbitFS =
  address :: string
  permissions :: "string list"
  bound_fs :: "'h option"

definition new_OrbitFS :: "OrbitFSOptions \<Rightarrow> 'h OrbitFS" where
  "new_OrbitFS opts =
     \<lparr>address = (case opt_address opts of None \<Rightarrow> [] | Some a \<Rightarrow> a),
      permissions = (case opt_permissions opts of None \<Rightarrow> [''*''] | Some ps \<Rightarrow> ps),
      bound_fs = None\<rparr>"

text \<open>
  What the call \<open>wrapSync(constructor)(args, k)\<close> does with the continuation \<open>k\<close>: it
  calls \<open>k\<close> with a first argument (\<open>Handed\<close>), or an exception escapes the call
  itself (\<open>Thrown\<close>), or \<open>k\<close> is never called (\<open>Pending\<close>). A wrapper that catches
  what the constructor throws and reports it through \<open>k\<close>, as it reports every
  completion in \<open>stat\<close> and \<open>readdir\<close>, hands the failure over as that first
  argument: a failed binding is then \<open>Handed\<close> with the failure as its value.
\<close>

datatype 'h binding = Thrown native | Handed 'h | Pending

record 'h orbitfs_module =
  create :: "string \<Rightarrow> string list \<Rightarrow> 'h binding"
  createDefault :: "'h binding"

definition priv_allocate ::
  "'h orbitfs_module \<Rightarrow> 'h OrbitFS \<Rightarrow>
   (err_value option \<Rightarrow> 'h OrbitFS \<Rightarrow> ('st, 'r) world \<Rightarrow> ('st, 'r) world) \<Rightarrow>
   ('st, 'r) world \<Rightarrow> ('st, 'r) world" where
  "priv_allocate m this cb w =
     (case create m (address this) (permissions this) of
        Thrown err \<Rightarrow> cb (Some (Native err)) this w
      | Handed res \<Rightarrow> cb None (this\<lparr>bound_fs := Some res\<rparr>) w
      | Pending \<Rightarrow> w)"

fun truthy_value :: "err_value option \<Rightarrow> bool" where
  "truthy_value None = False"
| "truthy_value (Some (Api a)) = True"
| "truthy_value (Some (Native s)) = (s \<noteq> [])"

definition Create ::
  "'h orbitfs_module \<Rightarrow> OrbitFSOptions \<Rightarrow> ('st, 'r, 'h OrbitFS) BFSCallback \<Rightarrow>
   ('st, 'r) world \<Rightarrow> ('st, 'r) world" where
  "Create m opts cb w =
     (let fs = new_OrbitFS opts in
      priv_allocate m fs
        (\<lambda>e fs' w'. if truthy_value e then cb e None w' else cb None (Some fs') w')
        w)"

definition CreateDefault ::
  "'h orbitfs_module \<Rightarrow> ('st, 'r, 'h OrbitFS) BFSCallback \<Rightarrow>
   ('st, 'r) world \<Rightarrow> ('st, 'r) world" where
  "CreateDefault m cb w =
     (let fs = new_OrbitFS \<lparr>opt_address = None, opt_permissions = None\<rparr> in
      case createDefault m of
        Thrown err \<Rightarrow> w\<lparr>raised := True\<rparr>
      | Handed h \<Rightarrow> cb None (Some (fs\<lparr>bound_fs := Some h\<rparr>)) w
      | Pending \<Rightarrow> w)"

section \<open>Scripted collaborators\<close>

text \<open>
  A store for exercising the operations on concrete inputs: it answers every \<open>ls\<close>,
  \<open>stat\<close>, mutation and \<open>rm\<close> with the given completions, and its state counts the
  mutating requests it has served.
\<close>

definition scripted ::
  "string list completion \<Rightarrow> StatInfo completion \<Rightarrow> unit completion \<Rightarrow> rm_completion \<Rightarrow>
   nat orbitfs" where
  "scripted l st m r =
     \<lparr>fs_ls = (\<lambda>p s. l),
      fs_stat = (\<lambda>p s. st),
      fs_mkdir = (\<lambda>p s. (m, Suc s)),
      fs_mv = (\<lambda>a b s. (m, Suc s)),
      fs_rm = (\<lambda>ps opts s. (r, Suc s)),
      fs_empty = (\<lambda>s. (m, Suc s))\<rparr>"

text \<open>
  An entry that grants a writer whose \<open>write\<close> fires the given events, an entry that
  grants no writer, and a store module whose wrapped constructors both behave in the
  given way.
\<close>

definition scripted_entry :: "writer_event list \<Rightarrow> FileEntry" where
  "scripted_entry evs = \<lparr>grants_writer = True, write_events = (\<lambda>b. evs)\<rparr>"

definition refusing_entry :: FileEntry where
  "refusing_entry = \<lparr>grants_writer = False, write_events = (\<lambda>b. [])\<rparr>"

definition scripted_module :: "'h binding \<Rightarrow> 'h orbitfs_module" where
  "scripted_module b = \<lparr>create = (\<lambda>a ps. b), createDefault = b\<rparr>"

text \<open>The payloads of the \<open>WriteError\<close> events of a list, in order.\<close>

fun failures :: "writer_event list \<Rightarrow> native list" where
  "failures [] = []"
| "failures (WriteEnd # evs) = failures evs"
| "failures (WriteError e # evs) = e # failures evs"

section \<open>Auxiliary facts\<close>

lemmas op_defs =
  rmdir_def readdir_def priv_remove_def unlink_def stat_def rename_def mkdir_def empty_fs_def
  deliver_def deliver2_def boot_def if_err_def
  ApiError_ENOENT_def ApiError_ENOTDIR_def ApiError_ENOTEMPTY_def

lemmas file_defs =
  sync_def close_def isDirty_def resetDirty_def getBuffer_def buffer2ArrayBuffer_def
  fdeliver_def fboot_def scripted_entry_def refusing_entry_def

lemmas ctor_defs =
  Create_def CreateDefault_def priv_allocate_def new_OrbitFS_def scripted_module_def

text \<open>Events that contain no \<open>WriteEnd\<close> only ever reach \<open>onerror\<close>.\<close>

lemma dispatch_no_end:
  "WriteEnd \<notin> set evs \<Longrightarrow>
   dispatch len fdeliver evs w = w\<lparr>fcbs := fcbs w @ map (\<lambda>e. Some (Native e)) (failures evs)\<rparr>"
proof (induction evs arbitrary: w)
  case Nil
  then show ?case by simp
next
  case (Cons ev evs)
  then show ?case by (cases ev) (simp_all add: fdeliver_def)
qed

text \<open>The first \<open>WriteEnd\<close> truncates, clears the flag, reports success and ends the handling.\<close>

lemma dispatch_end:
  "WriteEnd \<in> set evs \<Longrightarrow>
   dispatch len fdeliver evs w =
     w\<lparr>wcalls := wcalls w @ [Truncate len], handle := resetDirty (handle w),
       fcbs := fcbs w @
         map (\<lambda>e. Some (Native e)) (failures (takeWhile (\<lambda>v. v \<noteq> WriteEnd) evs)) @ [None]\<rparr>"
proof (induction evs arbitrary: w)
  case Nil
  then show ?case by simp
next
  case (Cons ev evs)
  then show ?case by (cases ev) (simp_all add: fdeliver_def)
qed

lemma failures_takeWhile:
  "WriteEnd \<notin> set evs \<Longrightarrow> failures (takeWhile (\<lambda>v. v \<noteq> WriteEnd) evs) = failures evs"
proof (induction evs)
  case Nil
  then show ?case by simp
next
  case (Cons ev evs)
  then show ?case by (cases ev) simp_all
qed

section \<open>Removal\<close>

text \<open>
  Claim C1 (every operation completes its callback exactly once; in particular \<open>unlink\<close>
  and \<open>rmdir\<close>, which go through \<open>_remove\<close>). \<open>_remove\<close> calls back only inside
  \<open>if (err)\<close> of the promise's fulfilment handler: when the store removes the target and
  resolves without an error, and when the promise rejects, the callback is never
  invoked. So a successful \<open>unlink\<close>, and a successful \<open>rmdir\<close> of an empty directory,
  complete zero times.
\<close>

theorem remove_success_never_calls_back:
  "unlink (scripted (None, Some []) (None, None) (None, None) (Resolved None)) ''/f'' deliver (boot 0) =
     \<lparr>store = 1, calls = [Rm [''/f''] \<lparr>recursive = True\<rparr>], cbs = [], raised = False\<rparr>
   \<and> rmdir (scripted (None, Some []) (None, None) (None, None) (Resolved None)) ''/d'' deliver (boot 0) =
     \<lparr>store = 1, calls = [Ls ''/d'', Rm [''/d''] \<lparr>recursive = False\<rparr>], cbs = [], raised = False\<rparr>
   \<and> cbs (unlink (scripted (None, Some []) (None, None) (None, None) (Rejected ''file does not exist''))
            ''/f'' deliver (boot 0)) = []"
  by (simp add: op_defs scripted_def Let_def)

text \<open>
  Claim C8 (\<open>unlink\<close> and \<open>rmdir\<close> route to \<open>_remove\<close>, and the recursion flag given to
  the store's \<open>rm\<close> is recursive for a directory and non-recursive for a file). The
  routing holds. The flag is \<open>{recursive: isFile}\<close>: it is \<open>true\<close> for \<open>unlink\<close> (a
  file) and \<open>false\<close> for \<open>rmdir\<close> (a directory), the opposite of what the claim states.
\<close>

theorem remove_recursive_flag_is_isFile:
  fixes fs :: "'st orbitfs"
  shows "unlink fs P deliver (boot s) = priv_remove fs P deliver True (boot s)
       \<and> calls (priv_remove fs P deliver isFile (boot s)) = [Rm [P] \<lparr>recursive = isFile\<rparr>]
       \<and> calls (unlink (scripted (None, Some []) (None, None) (None, None) (Resolved None))
                 ''/f'' deliver (boot 0)) = [Rm [''/f''] \<lparr>recursive = True\<rparr>]
       \<and> calls (rmdir (scripted (None, Some []) (None, None) (None, None) (Resolved None))
                 ''/d'' deliver (boot 0)) = [Ls ''/d'', Rm [''/d''] \<lparr>recursive = False\<rparr>]"
  by (auto simp add: op_defs scripted_def Let_def
           split: prod.splits rm_completion.splits option.splits)

text \<open>
  Claim C2 (\<open>rmdir(P)\<close> lists \<open>P\<close> first; a non-empty listing fails with not-empty,
  issues no removal and leaves the store state unchanged; removal is invoked only when
  the listing is empty). The first store call of \<open>rmdir\<close> is \<open>ls P\<close>; when \<open>ls\<close> answers
  with at least one entry the callback gets \<open>ENOTEMPTY(P)\<close> once, \<open>ls P\<close> is the only
  store call and the store state is the initial one; and \<open>rm\<close> is among the calls
  exactly when \<open>ls\<close> answered with the empty listing.
\<close>

theorem rmdir_lists_before_removing:
  fixes fs :: "'st orbitfs"
  shows "take 1 (calls (rmdir fs P deliver (boot s))) = [Ls P]
    \<and> (\<forall>err files. fs_ls fs P s = (err, Some files) \<and> \<not> truthy err \<and> files \<noteq> [] \<longrightarrow>
          rmdir fs P deliver (boot s) =
            \<lparr>store = s, calls = [Ls P], cbs = [Some (Api (ApiError ENOTEMPTY P))], raised = False\<rparr>)
    \<and> ((\<exists>ps opts. Rm ps opts \<in> set (calls (rmdir fs P deliver (boot s)))) \<longleftrightarrow>
          (\<exists>err. fs_ls fs P s = (err, Some []) \<and> \<not> truthy err))"
proof (cases "fs_ls fs P s")
  case (Pair err res)
  then show ?thesis
    by (cases err; cases res)
       (auto simp: op_defs Let_def split: prod.splits rm_completion.splits option.splits)
qed

theorem rmdir_lists_before_removing_witness:
  "rmdir (scripted (None, Some [''b'']) (None, None) (None, None) (Resolved None)) ''/a'' deliver (boot 0) =
     \<lparr>store = 0, calls = [Ls ''/a''], cbs = [Some (Api (ApiError ENOTEMPTY ''/a''))], raised = False\<rparr>
   \<and> (\<exists>ps opts. Rm ps opts \<in> set (calls
        (rmdir (scripted (None, Some []) (None, None) (None, None) (Resolved None)) ''/a'' deliver (boot 0))))"
  using rmdir_lists_before_removing
          [of "scripted (None, Some [''b'']) (None, None) (None, None) (Resolved None)" "''/a''" 0]
        rmdir_lists_before_removing
          [of "scripted (None, Some []) (None, None) (None, None) (Resolved None)" "''/a''" 0]
  by (simp add: scripted_def)

section \<open>Error classification\<close>

text \<open>
  Claim C6 (for a path never created, \<open>stat\<close> fails with not-found and \<open>readdir\<close> with
  not-a-directory; every failed store \<open>stat\<close> is classified as not-found and every
  failed store \<open>ls\<close> as not-a-directory, whatever the native error says). Whenever the
  store's \<open>stat\<close> completes with an error, \<open>stat\<close> calls back once with
  \<open>ENOENT\<close>, and whenever the store's \<open>ls\<close> completes with an error, \<open>readdir\<close> calls
  back once with \<open>ENOTDIR\<close>; the code does not depend on the error \<open>e\<close>, which is only
  carried along. Neither touches the store state.
\<close>

theorem failed_stat_and_ls_classified:
  fixes fs :: "'st orbitfs"
  shows "(\<forall>e res. fs_stat fs P s = (Some e, res) \<and> e \<noteq> [] \<longrightarrow>
            stat fs P isLstat deliver2 (boot s) =
              \<lparr>store = s, calls = [Stat P],
               cbs = [(Some (Api (ApiError ENOENT e)), None)], raised = False\<rparr>)
       \<and> (\<forall>e res. fs_ls fs P s = (Some e, res) \<and> e \<noteq> [] \<longrightarrow>
            readdir fs P deliver2 (boot s) =
              \<lparr>store = s, calls = [Ls P],
               cbs = [(Some (Api (ApiError ENOTDIR e)), None)], raised = False\<rparr>)"
  by (simp add: op_defs Let_def)

theorem failed_stat_and_ls_classified_witness:
  "stat (scripted (Some ''no such dir'', None) (Some ''no such file'', None) (None, None) (Resolved None))
        ''/missing'' False deliver2 (boot 0) =
     \<lparr>store = 0, calls = [Stat ''/missing''],
      cbs = [(Some (Api (ApiError ENOENT ''no such file'')), None)], raised = False\<rparr>
   \<and> readdir (scripted (Some ''no such dir'', None) (Some ''no such file'', None) (None, None) (Resolved None))
        ''/missing'' deliver2 (boot 0) =
     \<lparr>store = 0, calls = [Ls ''/missing''],
      cbs = [(Some (Api (ApiError ENOTDIR ''no such dir'')), None)], raised = False\<rparr>"
  using failed_stat_and_ls_classified
          [of "scripted (Some ''no such dir'', None) (Some ''no such file'', None) (None, None) (Resolved None)"
              "''/missing''" 0 False]
  by (simp add: scripted_def)

text \<open>
  Claim C10 (\<open>rmdir\<close> of a path that does not exist fails with not-a-directory, the
  classification of the initial listing, and not with not-found). When the store's \<open>ls\<close>
  of \<open>P\<close> completes with an error, \<open>rmdir(P)\<close> calls back once with the \<open>ENOTDIR\<close>
  error built by \<open>readdir\<close>; \<open>ls\<close> is the only store call, so no \<open>stat\<close> and no \<open>rm\<close>
  is issued and the store state is unchanged.
\<close>

theorem rmdir_missing_is_enotdir:
  fixes fs :: "'st orbitfs"
  assumes "fs_ls fs P s = (Some e, res)" and "e \<noteq> []"
  shows "rmdir fs P deliver (boot s) =
           \<lparr>store = s, calls = [Ls P], cbs = [Some (Api (ApiError ENOTDIR e))], raised = False\<rparr>
       \<and> errno (ApiError_ENOTDIR e) \<noteq> ENOENT"
  using assms by (simp add: op_defs Let_def)

theorem rmdir_missing_is_enotdir_witness:
  "rmdir (scripted (Some ''no such dir'', None) (Some ''no such file'', None) (None, None) (Resolved None))
         ''/missing'' deliver (boot 0) =
     \<lparr>store = 0, calls = [Ls ''/missing''],
      cbs = [Some (Api (ApiError ENOTDIR ''no such dir''))], raised = False\<rparr>"
  using rmdir_missing_is_enotdir
          [of "scripted (Some ''no such dir'', None) (Some ''no such file'', None) (None, None) (Resolved None)"
              "''/missing''" 0 "''no such dir''" None]
  by (simp add: scripted_def)

text \<open>
  Claim C7 (every failing operation, including \<open>rename\<close>, \<open>mkdir\<close> and \<open>empty\<close>,
  delivers an error of the closed taxonomy; store-native errors never escape and their
  detail is not preserved). \<open>rename\<close> passes the caller's callback straight to the
  wrapped \<open>mv\<close>, so a failing \<open>mv\<close> reaches the caller as the store's own error; and the
  \<open>ENOENT\<close> of a failed \<open>stat\<close> carries the store's error string.
\<close>

theorem rename_delivers_native_error:
  "rename (scripted (None, None) (None, None) (Some ''no link named a'', None) (Resolved None))
          ''/a'' ''/b'' deliver (boot 0) =
     \<lparr>store = 1, calls = [Mv ''/a'' ''/b''], cbs = [Some (Native ''no link named a'')], raised = False\<rparr>
   \<and> cbs (stat (scripted (None, None) (Some ''no link named a'', None) (None, None) (Resolved None))
             ''/a'' False deliver2 (boot 0)) = [(Some (Api (ApiError ENOENT ''no link named a'')), None)]"
  by (simp add: op_defs scripted_def Let_def)

text \<open>
  Claim C7, as amended: a failed store \<open>stat\<close> is delivered as a not-found error, a
  failed store \<open>ls\<close> as a not-a-directory error (by \<open>readdir\<close> and by \<open>rmdir\<close>), and a
  non-empty listing in \<open>rmdir\<close> as a not-empty error, each built at the contract
  boundary, the first two carrying the store's error string; \<open>rename\<close>, \<open>mkdir\<close> and
  \<open>empty\<close> deliver exactly the error slot of the store's completion, unclassified.
\<close>

theorem errors_classified_or_passed_through:
  fixes fs :: "'st orbitfs"
  shows "(\<forall>e r. fs_stat fs P s = (Some e, r) \<and> e \<noteq> [] \<longrightarrow>
            cbs (stat fs P isLstat deliver2 (boot s)) = [(Some (Api (ApiError ENOENT e)), None)])
       \<and> (\<forall>e r. fs_ls fs P s = (Some e, r) \<and> e \<noteq> [] \<longrightarrow>
            cbs (readdir fs P deliver2 (boot s)) = [(Some (Api (ApiError ENOTDIR e)), None)]
          \<and> cbs (rmdir fs P deliver (boot s)) = [Some (Api (ApiError ENOTDIR e))])
       \<and> (\<forall>err files. fs_ls fs P s = (err, Some files) \<and> \<not> truthy err \<and> files \<noteq> [] \<longrightarrow>
            cbs (rmdir fs P deliver (boot s)) = [Some (Api (ApiError ENOTEMPTY P))])
       \<and> cbs (rename fs P Q deliver (boot s)) = [map_option Native (fst (fst (fs_mv fs P Q s)))]
       \<and> cbs (mkdir fs P mode deliver (boot s)) = [map_option Native (fst (fst (fs_mkdir fs P s)))]
       \<and> cbs (empty_fs fs deliver (boot s)) = [map_option Native (fst (fst (fs_empty fs s)))]"
proof (intro conjI allI impI)
  fix err files
  assume "fs_ls fs P s = (err, Some files) \<and> \<not> truthy err \<and> files \<noteq> []"
  then show "cbs (rmdir fs P deliver (boot s)) = [Some (Api (ApiError ENOTEMPTY P))]"
    by (cases err) (auto simp add: op_defs Let_def)
qed (simp_all add: op_defs Let_def split: prod.splits)

theorem errors_classified_or_passed_through_witness:
  "cbs (stat (scripted (Some ''no such dir'', None) (Some ''no such file'', None)
                (Some ''no link named a'', None) (Resolved None))
          ''/a'' False deliver2 (boot 0)) = [(Some (Api (ApiError ENOENT ''no such file'')), None)]
   \<and> cbs (rmdir (scripted (Some ''no such dir'', None) (Some ''no such file'', None)
                   (Some ''no link named a'', None) (Resolved None))
          ''/a'' deliver (boot 0)) = [Some (Api (ApiError ENOTDIR ''no such dir''))]
   \<and> cbs (rmdir (scripted (None, Some [''b'']) (None, None) (None, None) (Resolved None))
          ''/a'' deliver (boot 0)) = [Some (Api (ApiError ENOTEMPTY ''/a''))]
   \<and> cbs (mkdir (scripted (Some ''no such dir'', None) (Some ''no such file'', None)
                   (Some ''no link named a'', None) (Resolved None))
          ''/a'' 511 deliver (boot 0)) = [Some (Native ''no link named a'')]"
  using errors_classified_or_passed_through
          [of "scripted (Some ''no such dir'', None) (Some ''no such file'', None)
                 (Some ''no link named a'', None) (Resolved None)" "''/a''" 0 False "''/b''" 511]
        errors_classified_or_passed_through
          [of "scripted (None, Some [''b'']) (None, None) (None, None) (Resolved None)"
              "''/a''" 0 False "''/b''" 511]
  by (simp add: scripted_def)

section \<open>The file object: sync and close\<close>

text \<open>
  What \<open>sync\<close> does on a dirty handle whose entry grants a writer, for any events the
  writer fires: \<open>createWriter\<close>, one \<open>write\<close> of the blob of the whole buffer and, if
  a \<open>writeend\<close> is among the events, one \<open>truncate\<close> to the buffer's length; the flag
  is clear afterwards exactly when a \<open>writeend\<close> was fired, whether or not an error was
  fired before it; every error fired before the first \<open>writeend\<close> is handed to the
  callback as it came, and the \<open>writeend\<close> adds a success.
\<close>

lemma sync_dirty_trace:
  assumes "dirty h" and "grants_writer entry"
  shows "wcalls (sync entry fdeliver (fboot h)) =
           [CreateWriter, Write (Blob [buffer h])] @
           (if WriteEnd \<in> set (write_events entry (Blob [buffer h]))
            then [Truncate (length (buffer h))] else [])
       \<and> dirty (handle (sync entry fdeliver (fboot h))) =
           (WriteEnd \<notin> set (write_events entry (Blob [buffer h])))
       \<and> buffer (handle (sync entry fdeliver (fboot h))) = buffer h
       \<and> fcbs (sync entry fdeliver (fboot h)) =
           map (\<lambda>e. Some (Native e))
             (failures (takeWhile (\<lambda>v. v \<noteq> WriteEnd) (write_events entry (Blob [buffer h])))) @
           (if WriteEnd \<in> set (write_events entry (Blob [buffer h])) then [None] else [])"
proof (cases "WriteEnd \<in> set (write_events entry (Blob [buffer h]))")
  case True
  then show ?thesis using assms
    by (simp add: file_defs Let_def dispatch_end)
next
  case False
  then show ?thesis using assms
    by (simp add: file_defs Let_def dispatch_no_end failures_takeWhile)
qed

text \<open>
  Claim C3 (a \<open>sync\<close> on a dirty handle performs exactly one flush: the buffer is
  materialised as a blob, the blob is written and the persisted object truncated to the
  blob's byte length; the dirty flag is cleared only after the backend signals
  successful completion; if the backend signals failure the flag stays set and the
  backend's error reaches the caller unchanged: the flush is all-or-nothing). The
  failure clause does not hold of \<open>sync\<close>. \<open>onerror\<close> calls \<open>cb(err)\<close> and leaves both
  handlers installed, and \<open>onwriteend\<close> ignores its argument: when a failed write
  fires \<open>error\<close> and then \<open>writeend\<close>, the caller gets the error, then the object is
  truncated, the dirty flag is cleared and the caller gets a success as well. And
  \<open>createWriter\<close> is given no error callback: when the entry grants no writer, nothing
  is written and the caller is never called back.
\<close>

theorem sync_failed_write_clears_dirty:
  "sync (scripted_entry [WriteError ''quota'', WriteEnd]) fdeliver
        (fboot \<lparr>dirty = True, buffer = [1, 2, 3]\<rparr>) =
     \<lparr>handle = \<lparr>dirty = False, buffer = [1, 2, 3]\<rparr>,
      wcalls = [CreateWriter, Write (Blob [[1, 2, 3]]), Truncate 3],
      fcbs = [Some (Native ''quota''), None]\<rparr>
   \<and> sync refusing_entry fdeliver (fboot \<lparr>dirty = True, buffer = [1, 2, 3]\<rparr>) =
     \<lparr>handle = \<lparr>dirty = True, buffer = [1, 2, 3]\<rparr>,
      wcalls = [CreateWriter],
      fcbs = []\<rparr>"
  by (simp add: file_defs Let_def)

text \<open>
  Claim C9 (\<open>sync\<close> on a clean handle succeeds and issues no store call, so two syncs in
  a row on a clean handle both succeed with no store call). On a handle whose dirty
  flag is clear, \<open>sync\<close> only adds one success to the callback's record: the handle and
  the writer calls are as before; a second \<open>sync\<close> adds one more success and again
  nothing else.
\<close>

theorem sync_clean_is_noop:
  assumes "\<not> dirty (handle w)"
  shows "sync entry fdeliver w = w\<lparr>fcbs := fcbs w @ [None]\<rparr>
       \<and> sync entry' fdeliver (sync entry fdeliver w) = w\<lparr>fcbs := fcbs w @ [None, None]\<rparr>"
  using assms by (simp add: file_defs)

theorem sync_clean_is_noop_witness:
  "sync (scripted_entry [WriteEnd]) fdeliver
     (sync (scripted_entry [WriteEnd]) fdeliver (fboot \<lparr>dirty = False, buffer = [7]\<rparr>)) =
   \<lparr>handle = \<lparr>dirty = False, buffer = [7]\<rparr>, wcalls = [], fcbs = [None, None]\<rparr>"
  using sync_clean_is_noop
          [of "fboot \<lparr>dirty = False, buffer = [7]\<rparr>"
              "scripted_entry [WriteEnd]" "scripted_entry [WriteEnd]"]
  by (simp add: file_defs)

text \<open>
  Claim C4 (\<open>close\<close> syncs first and then invalidates the handle, which becomes
  \<open>Closed\<close>: any further call on it is an error). \<open>close\<close> is \<open>this.sync(cb)\<close> and
  nothing more; the handle has no closed state. After a \<open>close\<close> that flushed a dirty
  handle, a further \<open>sync\<close> on the same handle reports success.
\<close>

theorem close_leaves_handle_usable:
  "fcbs (sync (scripted_entry [WriteEnd]) fdeliver
          (close (scripted_entry [WriteEnd]) fdeliver (fboot \<lparr>dirty = True, buffer = [1]\<rparr>))) =
     [None, None]"
  by (simp add: file_defs Let_def)

text \<open>
  Claim C4, as amended: \<open>close\<close> performs the \<open>sync\<close> of the handle, whatever happened
  on the handle before, and does nothing else: the handle is not invalidated, and a
  further \<open>sync\<close> on a handle that \<open>close\<close> left clean succeeds without touching
  the handle or the writer.
\<close>

theorem close_is_sync:
  "close entry cb w = sync entry cb w
   \<and> (\<not> dirty (handle (close entry fdeliver w)) \<longrightarrow>
        sync entry' fdeliver (close entry fdeliver w) =
          (close entry fdeliver w)\<lparr>fcbs := fcbs (close entry fdeliver w) @ [None]\<rparr>)"
  by (simp add: close_def sync_def[of entry'] isDirty_def fdeliver_def)

theorem close_is_sync_witness:
  "sync (scripted_entry [WriteEnd]) fdeliver
     (close (scripted_entry [WriteEnd]) fdeliver (fboot \<lparr>dirty = True, buffer = [1]\<rparr>)) =
   \<lparr>handle = \<lparr>dirty = False, buffer = [1]\<rparr>,
    wcalls = [CreateWriter, Write (Blob [[1]]), Truncate 1],
    fcbs = [None, None]\<rparr>"
  using close_is_sync
          [of "scripted_entry [WriteEnd]" fdeliver "fboot \<lparr>dirty = True, buffer = [1]\<rparr>"
              "scripted_entry [WriteEnd]"]
  by (simp add: file_defs Let_def)

section \<open>Construction\<close>

text \<open>
  Claim C5 (if phase-2 binding fails, the completion callback of \<open>Create\<close> or
  \<open>CreateDefault\<close> receives an error and never a usable instance). A failed binding
  reaches the continuation given to the wrapped constructor as its first argument; the
  continuations of \<open>_allocate\<close> and of \<open>CreateDefault\<close> take that argument for the
  store, bind it as \<open>_fs\<close> and go on as after a success, so both \<open>Create\<close> and
  \<open>CreateDefault\<close> hand the instance over with no error (the last two equations).
  \<open>Create\<close> does try to report: the \<open>try\<close>/\<open>catch\<close> of \<open>_allocate\<close> and
  \<open>e ? cb(e) : cb(null, fs)\<close> deliver an error, but only for an exception that escapes
  the wrapped call itself, which a failure caught by the wrapper never does;
  \<open>CreateDefault\<close> has not even that path, its only call of the callback being
  \<open>cb(null, fs)\<close> (the first two equations).
\<close>

theorem CreateDefault_failure_not_reported:
  "CreateDefault (scripted_module (Thrown ''bind failed'') :: nat orbitfs_module) deliver2 (boot ()) =
     \<lparr>store = (), calls = [], cbs = [], raised = True\<rparr>
   \<and> Create (scripted_module (Thrown ''bind failed'') :: nat orbitfs_module)
        \<lparr>opt_address = None, opt_permissions = None\<rparr> deliver2 (boot ()) =
     \<lparr>store = (), calls = [], cbs = [(Some (Native ''bind failed''), None)], raised = False\<rparr>
   \<and> CreateDefault (scripted_module (Handed (Inl ''bind failed'')) :: (string + nat) orbitfs_module)
        deliver2 (boot ()) =
     \<lparr>store = (), calls = [],
      cbs = [(None, Some \<lparr>address = [], permissions = [''*''], bound_fs = Some (Inl ''bind failed'')\<rparr>)],
      raised = False\<rparr>
   \<and> Create (scripted_module (Handed (Inl ''bind failed'')) :: (string + nat) orbitfs_module)
        \<lparr>opt_address = None, opt_permissions = None\<rparr> deliver2 (boot ()) =
     \<lparr>store = (), calls = [],
      cbs = [(None, Some \<lparr>address = [], permissions = [''*''], bound_fs = Some (Inl ''bind failed'')\<rparr>)],
      raised = False\<rparr>"
  by (simp add: ctor_defs op_defs Let_def)

end
